theory Spec2Isabelle
  imports Complex_Main
begin

section \<open>Data model (schema)\<close>

text \<open>
  An ObjectId is modelled by its string form, the value of \<open>toString()\<close>: 24 hexadecimal
  digits in lower case. That string is what the code compares. A TypeScript \<open>number\<close> is
  modelled as a real: comparison and minimum are exact on doubles as well, while the
  rounding of a product and the value \<open>NaN\<close> are not modelled.
\<close>

type_synonym objectId = string

definition isHexDigit :: "char \<Rightarrow> bool" where
  "isHexDigit c \<longleftrightarrow> c \<in> set ''0123456789abcdefABCDEF''"

definition toLowerHex :: "char \<Rightarrow> char" where
  "toLowerHex c =
     (if c = CHR ''A'' then CHR ''a'' else if c = CHR ''B'' then CHR ''b''
      else if c = CHR ''C'' then CHR ''c'' else if c = CHR ''D'' then CHR ''d''
      else if c = CHR ''E'' then CHR ''e'' else if c = CHR ''F'' then CHR ''f'' else c)"

text \<open>
  The id strings of a query are cast to ObjectId by mongoose before the query is sent. A
  string of 24 hexadecimal digits is the id it writes, whatever the case of its letters;
  any other string is refused with a \<open>CastError\<close>, here \<open>None\<close>.
\<close>

definition castObjectId :: "string \<Rightarrow> objectId option" where
  "castObjectId s =
     (if length s = 24 \<and> list_all isHexDigit s then Some (map toLowerHex s) else None)"

text \<open>
  A string of 24 hexadecimal digits. The string form of every ObjectId that is stored in
  a document is one, with its letters in lower case.
\<close>

definition isObjectId :: "objectId \<Rightarrow> bool" where
  "isObjectId x \<longleftrightarrow> length x = 24 \<and> list_all isHexDigit x"

datatype AccessType = PUBLIC | COMMUNAL | PROTECTED | PRIVATE

datatype BillableType = BILLABLE | NON_BILLABLE

text \<open>
  \<open>IUserGroup\<close>: the fields \<open>users\<close> and \<open>accessibleSites\<close> are arrays of references.
\<close>

record IUserGroup =
  group_id :: objectId
  name :: string
  description :: "string option"
  users :: "objectId list"
  accessibleSites :: "objectId list"

text \<open>
  \<open>ISite\<close>, the document that \<open>populate("site")\<close> puts in place of the reference. The
  field \<open>name\<close> of the source is \<open>siteName\<close> here, \<open>chargers\<close> is \<open>siteChargers\<close>.
\<close>

record ISite =
  site_id :: objectId
  siteName :: string
  address :: string
  siteChargers :: "objectId list"

text \<open>
  \<open>toString()\<close> of a mongoose document is the text that \<open>inspect\<close> prints for it, an
  object literal in braces with the fields of the document, not the id of the document.
  The text below is a rendering of it on one line; what the development uses of it is that
  it opens with a brace.
\<close>

definition Site_toString :: "ISite \<Rightarrow> string" where
  "Site_toString s =
     ''{ _id: new ObjectId('' @ site_id s @ ''), name: '' @ siteName s
       @ '', location: { address: '' @ address s @ '' }, chargers: [ ... ] }''"

text \<open>
  \<open>ICharger\<close> as \<open>Charger.findById(chargerId).populate("site")\<close> delivers it. The field
  \<open>site\<close> holds the value of \<open>charger.site.toString()\<close>, which for a populated site
  document \<open>d\<close> is \<open>Site_toString d\<close>; \<open>None\<close> stands for \<open>null\<close>, which \<open>populate\<close> leaves
  when the referenced site document does not exist. The type admits every string, more
  than the code can meet. \<open>billableType\<close> is optional in the schema.
\<close>

record ICharger =
  charger_id :: objectId
  site :: "string option"
  accessType :: AccessType
  billableType :: "BillableType option"
  powerOutput :: real
  tariffs :: "objectId list"

record TimeRule =
  startHour :: real
  endHour :: real
  rateMultiplier :: real

text \<open>
  \<open>ITariff\<close>: \<open>timeRules\<close> is optional (\<open>None\<close> is \<open>undefined\<close>). The reference fields
  \<open>charger\<close> and \<open>group\<close> of the source are \<open>tariffCharger\<close> and \<open>tariffGroup\<close> here, which
  leaves \<open>charger\<close> free for the local variable of \<open>authorizeAndPrice\<close>.
\<close>

record ITariff =
  tariff_id :: objectId
  tariffCharger :: objectId
  tariffGroup :: objectId
  ratePerKwh :: real
  timeRules :: "TimeRule list option"

text \<open>
  The \<open>Result\<close> interface of \<open>auth.ts\<close>; the optional fields are options. Its rate field
  is called \<open>ratePerKwh\<close> in the source as well; here it is \<open>resultRatePerKwh\<close>, as a
  record field name is a constant of the theory.
\<close>

record Result =
  allowed :: bool
  reason :: "string option"
  resultRatePerKwh :: "real option"

text \<open>
  Of the \<open>Date\<close> argument the code reads \<open>getHours()\<close> only: the hour of the day, 0 to 23,
  in the local time of the host. A date is modelled by its milliseconds since the epoch,
  already shifted to local time.
\<close>

datatype Date = Date (localMillis: int)

definition getHours :: "Date \<Rightarrow> int" where
  "getHours time = (localMillis time div 3600000) mod 24"

section \<open>The store and its three queries\<close>

text \<open>
  A query of the store either rejects (the \<open>await\<close> throws) or delivers documents: with
  a \<open>CastError\<close> when an id string of the query is not an ObjectId, with a \<open>MongoError\<close>
  when the collection cannot be read. A \<open>TypeError\<close> is what reading a property of
  \<open>null\<close> throws.
\<close>

datatype fault = MongoError | TypeError | CastError

text \<open>
  The three collections the code queries, named as the mongoose models are. A collection
  that cannot be read is \<open>Inl\<close> of the fault every query of it raises.
\<close>

record store =
  Charger :: "fault + ICharger list"
  UserGroup :: "fault + IUserGroup list"
  Tariff :: "fault + ITariff list"

text \<open>
  \<open>Charger.findById(chargerId).populate("site")\<close>: the document with that id, or \<open>null\<close>.
\<close>

definition Charger_findById :: "store \<Rightarrow> string \<Rightarrow> fault + ICharger option" where
  "Charger_findById db chargerId =
     (case castObjectId chargerId of
        None \<Rightarrow> Inl CastError
      | Some cid \<Rightarrow>
          (case Charger db of
             Inl e \<Rightarrow> Inl e
           | Inr docs \<Rightarrow> Inr (find (\<lambda>c. charger_id c = cid) docs)))"

text \<open>\<open>UserGroup.find({ users: userId })\<close>: the groups whose \<open>users\<close> array holds the user.\<close>

definition UserGroup_find :: "store \<Rightarrow> string \<Rightarrow> fault + IUserGroup list" where
  "UserGroup_find db userId =
     (case castObjectId userId of
        None \<Rightarrow> Inl CastError
      | Some uid \<Rightarrow>
          (case UserGroup db of
             Inl e \<Rightarrow> Inl e
           | Inr docs \<Rightarrow> Inr (filter (\<lambda>g. uid \<in> set (users g)) docs)))"

text \<open>
  \<open>Tariff.find({ charger: chargerId, group: { $in: groupIds } })\<close>. The group ids are the
  \<open>_id\<close> values of documents and need no cast.
\<close>

definition Tariff_find :: "store \<Rightarrow> string \<Rightarrow> objectId list \<Rightarrow> fault + ITariff list" where
  "Tariff_find db chargerId groupIds =
     (case castObjectId chargerId of
        None \<Rightarrow> Inl CastError
      | Some cid \<Rightarrow>
          (case Tariff db of
             Inl e \<Rightarrow> Inl e
           | Inr docs \<Rightarrow>
               Inr (filter (\<lambda>t. tariffCharger t = cid \<and> tariffGroup t \<in> set groupIds) docs)))"

section \<open>authorizeAndPrice\<close>

text \<open>
  \<open>group.accessibleSites.some((siteId) => siteId.toString() === charger.site.toString())\<close>:
  the callback runs on the elements in order until one gives true; on a \<open>null\<close> site its
  first run throws.
\<close>

fun some_site :: "string option \<Rightarrow> objectId list \<Rightarrow> fault + bool" where
  "some_site chargerSite [] = Inr False"
| "some_site chargerSite (siteId # rest) =
     (case chargerSite of
        None \<Rightarrow> Inl TypeError
      | Some s \<Rightarrow> if siteId = s then Inr True else some_site chargerSite rest)"

text \<open>\<open>userGroups.filter((group) => group.accessibleSites.some(...))\<close>, in order.\<close>

fun authorizedGroups_filter :: "ICharger \<Rightarrow> IUserGroup list \<Rightarrow> fault + IUserGroup list" where
  "authorizedGroups_filter charger [] = Inr []"
| "authorizedGroups_filter charger (g # gs) =
     (case some_site (site charger) (accessibleSites g) of
        Inl e \<Rightarrow> Inl e
      | Inr keep \<Rightarrow>
          (case authorizedGroups_filter charger gs of
             Inl e \<Rightarrow> Inl e
           | Inr kept \<Rightarrow> Inr (if keep then g # kept else kept)))"

text \<open>The predicate of \<open>tariff.timeRules.find\<close> (line 75).\<close>

definition rule_matches :: "int \<Rightarrow> TimeRule \<Rightarrow> bool" where
  "rule_matches currentHour rule \<longleftrightarrow>
     real_of_int currentHour \<ge> startHour rule \<and> real_of_int currentHour < endHour rule"

text \<open>
  The body of the loop up to line 83: the value of \<open>effectiveRate\<close> when the comparison
  with \<open>bestRate\<close> is reached.
\<close>

definition effectiveRate :: "ITariff \<Rightarrow> Date \<Rightarrow> real" where
  "effectiveRate tariff time =
     (case timeRules tariff of
        None \<Rightarrow> ratePerKwh tariff
      | Some rules \<Rightarrow>
          (case find (rule_matches (getHours time)) rules of
             None \<Rightarrow> ratePerKwh tariff
           | Some timeRule \<Rightarrow> ratePerKwh tariff * rateMultiplier timeRule))"

text \<open>The \<open>for\<close> loop of lines 65 to 89, with \<open>bestRate\<close> as the accumulator.\<close>

fun bestRate_loop :: "real \<Rightarrow> ITariff list \<Rightarrow> Date \<Rightarrow> real" where
  "bestRate_loop bestRate [] time = bestRate"
| "bestRate_loop bestRate (tariff # rest) time =
     (if effectiveRate tariff time < bestRate
      then bestRate_loop (effectiveRate tariff time) rest time
      else bestRate_loop bestRate rest time)"

definition denied :: "string \<Rightarrow> Result" where
  "denied why = \<lparr>allowed = False, reason = Some why, resultRatePerKwh = None\<rparr>"

definition granted :: "real \<Rightarrow> Result" where
  "granted rate = \<lparr>allowed = True, reason = None, resultRatePerKwh = Some rate\<rparr>"

text \<open>
  The body of the \<open>try\<close> block, lines 15 to 91. \<open>Inl\<close> is an exception that leaves the
  block; \<open>Inr\<close> is a \<open>return\<close>.
\<close>

definition authorizeAndPrice_try ::
  "store \<Rightarrow> string \<Rightarrow> string \<Rightarrow> Date \<Rightarrow> fault + Result" where
  "authorizeAndPrice_try db userId chargerId time =
     (case Charger_findById db chargerId of
        Inl e \<Rightarrow> Inl e
      | Inr None \<Rightarrow> Inr (denied ''Charger not found'')
      | Inr (Some charger) \<Rightarrow>
          if accessType charger = PRIVATE \<and> billableType charger = Some NON_BILLABLE
          then Inr (granted 0)
          else
            (case UserGroup_find db userId of
               Inl e \<Rightarrow> Inl e
             | Inr userGroups \<Rightarrow>
                 if length userGroups = 0
                 then Inr (denied ''User has no group membership'')
                 else
                   (case authorizedGroups_filter charger userGroups of
                      Inl e \<Rightarrow> Inl e
                    | Inr authorizedGroups \<Rightarrow>
                        if length authorizedGroups = 0
                        then Inr (denied ''User's groups do not have access to this site'')
                        else
                          (case Tariff_find db chargerId (map group_id authorizedGroups) of
                             Inl e \<Rightarrow> Inl e
                           | Inr applicableTariffs \<Rightarrow>
                               (case applicableTariffs of
                                  [] \<Rightarrow> Inr (denied ''No pricing tariff available for this charger'')
                                | first # _ \<Rightarrow>
                                    Inr (granted
                                      (bestRate_loop (ratePerKwh first) applicableTariffs time)))))))"

text \<open>
  The whole function: the \<open>catch\<close> clause of lines 92 to 95 turns every exception into the
  system-error result. The \<open>console.error\<close> call writes a log line and is left out.
\<close>

definition authorizeAndPrice :: "store \<Rightarrow> string \<Rightarrow> string \<Rightarrow> Date \<Rightarrow> Result" where
  "authorizeAndPrice db userId chargerId time =
     (case authorizeAndPrice_try db userId chargerId time of
        Inl e \<Rightarrow> denied ''System error occurred''
      | Inr result \<Rightarrow> result)"

section \<open>Example data\<close>

text \<open>
  One site, the depot, with two chargers on it, a public one and an owner's free one, and
  two chargers whose site document is missing, one of them free as well. The user \<open>ada\<close>
  is in the group \<open>fleet\<close>, whose accessible sites hold the depot; the user \<open>bob\<close> is in no
  group. All ids are ObjectId strings, and the site of a charger is the text of the
  populated document. The group \<open>fleet\<close> has a tariff for the public charger and one for
  the owner's charger; a third tariff of the public charger is for a group \<open>staff\<close>.
\<close>

definition user_ada :: string where "user_ada = ''0000000000000000000000a1''"

definition user_bob :: string where "user_bob = ''0000000000000000000000b2''"

definition id_public :: string where "id_public = ''0000000000000000000000c1''"

definition id_owner :: string where "id_owner = ''0000000000000000000000c2''"

definition id_orphan :: string where "id_orphan = ''0000000000000000000000c3''"

definition id_keyless :: string where "id_keyless = ''0000000000000000000000c4''"

definition id_depot :: objectId where "id_depot = ''0000000000000000000000d1''"

definition id_fleet :: objectId where "id_fleet = ''0000000000000000000000f1''"

definition id_staff :: objectId where "id_staff = ''0000000000000000000000f2''"

definition site_depot :: ISite where
  "site_depot = \<lparr>site_id = id_depot, siteName = ''Depot'', address = ''1 Main Street'',
     siteChargers = [id_public, id_owner]\<rparr>"

definition charger_public :: ICharger where
  "charger_public = \<lparr>charger_id = id_public, site = Some (Site_toString site_depot),
     accessType = PUBLIC, billableType = None, powerOutput = 22,
     tariffs = [''0000000000000000000000e1'']\<rparr>"

definition charger_owner :: ICharger where
  "charger_owner = \<lparr>charger_id = id_owner, site = Some (Site_toString site_depot),
     accessType = PRIVATE, billableType = Some NON_BILLABLE, powerOutput = 7, tariffs = []\<rparr>"

definition charger_orphan :: ICharger where
  "charger_orphan = \<lparr>charger_id = id_orphan, site = None, accessType = COMMUNAL,
     billableType = None, powerOutput = 11, tariffs = []\<rparr>"

definition charger_keyless :: ICharger where
  "charger_keyless = \<lparr>charger_id = id_keyless, site = None, accessType = PRIVATE,
     billableType = Some NON_BILLABLE, powerOutput = 3, tariffs = []\<rparr>"

definition group_fleet :: IUserGroup where
  "group_fleet = \<lparr>group_id = id_fleet, name = ''fleet'', description = None,
     users = [user_ada], accessibleSites = [id_depot]\<rparr>"

text \<open>
  Three time rules: a daytime surcharge, a midday discount inside it, and a rule written
  as the overnight interval from 22 to 6.
\<close>

definition rule_surge :: TimeRule where
  "rule_surge = \<lparr>startHour = 8, endHour = 20, rateMultiplier = 2\<rparr>"

definition rule_midday :: TimeRule where
  "rule_midday = \<lparr>startHour = 9, endHour = 11, rateMultiplier = 1 / 2\<rparr>"

definition rule_overnight :: TimeRule where
  "rule_overnight = \<lparr>startHour = 22, endHour = 6, rateMultiplier = 3\<rparr>"

definition tariff_surge :: ITariff where
  "tariff_surge = \<lparr>tariff_id = ''0000000000000000000000e1'', tariffCharger = id_public,
     tariffGroup = id_fleet, ratePerKwh = 10,
     timeRules = Some [rule_surge, rule_midday]\<rparr>"

definition tariff_flat :: ITariff where
  "tariff_flat = \<lparr>tariff_id = ''0000000000000000000000e2'', tariffCharger = id_public,
     tariffGroup = id_staff, ratePerKwh = 12, timeRules = None\<rparr>"

definition tariff_owner :: ITariff where
  "tariff_owner = \<lparr>tariff_id = ''0000000000000000000000e3'', tariffCharger = id_owner,
     tariffGroup = id_fleet, ratePerKwh = 5, timeRules = Some [rule_midday]\<rparr>"

definition store_depot :: store where
  "store_depot =
     \<lparr>Charger = Inr [charger_owner, charger_public, charger_orphan, charger_keyless],
      UserGroup = Inr [group_fleet], Tariff = Inr [tariff_surge, tariff_owner]\<rparr>"

definition ten_o_clock :: Date where
  "ten_o_clock = Date (10 * 3600000 + 1234)"

definition eleven_pm :: Date where
  "eleven_pm = Date (23 * 3600000)"

section \<open>Auxiliary facts\<close>

lemmas pipeline_defs = authorizeAndPrice_def authorizeAndPrice_try_def Charger_findById_def
  UserGroup_find_def Tariff_find_def

lemmas cast_defs = castObjectId_def isHexDigit_def toLowerHex_def

lemmas eval_defs = pipeline_defs cast_defs effectiveRate_def rule_matches_def getHours_def
  granted_def denied_def Site_toString_def

lemmas id_defs = user_ada_def user_bob_def id_public_def id_owner_def id_orphan_def
  id_keyless_def id_depot_def id_fleet_def id_staff_def

lemmas example_defs = id_defs site_depot_def charger_public_def charger_owner_def
  charger_orphan_def charger_keyless_def group_fleet_def rule_surge_def rule_midday_def
  rule_overnight_def tariff_surge_def tariff_flat_def tariff_owner_def store_depot_def
  ten_o_clock_def eleven_pm_def

lemma cast_example_ids:
  "castObjectId user_ada = Some user_ada" "castObjectId user_bob = Some user_bob"
  "castObjectId id_public = Some id_public" "castObjectId id_owner = Some id_owner"
  "castObjectId id_orphan = Some id_orphan" "castObjectId id_keyless = Some id_keyless"
  by (simp_all add: cast_defs id_defs)

lemma find_example_chargers:
  "find (\<lambda>c. charger_id c = id_owner)
     [charger_owner, charger_public, charger_orphan, charger_keyless] = Some charger_owner"
  "find (\<lambda>c. charger_id c = id_public)
     [charger_owner, charger_public, charger_orphan, charger_keyless] = Some charger_public"
  "find (\<lambda>c. charger_id c = id_orphan)
     [charger_owner, charger_public, charger_orphan, charger_keyless] = Some charger_orphan"
  "find (\<lambda>c. charger_id c = id_keyless)
     [charger_owner, charger_public, charger_orphan, charger_keyless] = Some charger_keyless"
  by (simp_all add: id_defs charger_owner_def charger_public_def charger_orphan_def
      charger_keyless_def)

subsection \<open>The site filter\<close>

lemma some_site_Some: "some_site (Some s) xs = Inr (s \<in> set xs)"
  by (induction xs) auto

text \<open>With a site present the filter raises nothing and is the plain list filter.\<close>

lemma authorizedGroups_filter_Some:
  "site charger = Some s \<Longrightarrow>
   authorizedGroups_filter charger gs = Inr (filter (\<lambda>g. s \<in> set (accessibleSites g)) gs)"
  by (induction gs) (auto simp: some_site_Some)

text \<open>The filter reads nothing of the charger but its site.\<close>

lemma authorizedGroups_filter_cong:
  "site c = site c' \<Longrightarrow> authorizedGroups_filter c gs = authorizedGroups_filter c' gs"
  by (induction gs) (auto split: sum.splits)

text \<open>
  With a \<open>null\<close> site no group passes: the filter returns the empty list when no group
  lists any site, and raises as soon as one does.
\<close>

lemma authorizedGroups_filter_None:
  "site charger = None \<Longrightarrow> authorizedGroups_filter charger gs = Inr ags \<Longrightarrow> ags = []"
proof (induction gs arbitrary: ags)
  case Nil
  then show ?case by simp
next
  case (Cons a gs)
  then show ?case
    by (cases "accessibleSites a") (auto split: sum.splits)
qed

lemma authorizedGroups_filter_null_site:
  "site charger = None \<Longrightarrow> \<exists>g \<in> set gs. accessibleSites g \<noteq> [] \<Longrightarrow>
   authorizedGroups_filter charger gs = Inl TypeError"
proof (induction gs)
  case Nil
  then show ?case by simp
next
  case (Cons a gs)
  show ?case
  proof (cases "accessibleSites a")
    case Nil
    with Cons show ?thesis by simp
  next
    case (Cons siteId rest)
    with \<open>site charger = None\<close> show ?thesis by simp
  qed
qed

text \<open>
  The text of a populated document is no ObjectId string: it opens with a brace. So the
  comparison of line 38 fails on every id, and no group passes the filter.
\<close>

lemma isObjectId_not_Site_toString: "isObjectId x \<Longrightarrow> x \<noteq> Site_toString d"
proof
  assume x: "isObjectId x" and eq: "x = Site_toString d"
  from eq obtain rest where "x = CHR ''{'' # rest" by (simp add: Site_toString_def)
  with x show False by (simp add: isObjectId_def isHexDigit_def)
qed

lemma populated_site_admits_no_group:
  assumes "site charger = Some (Site_toString d)"
    and "\<forall>g \<in> set gs. \<forall>x \<in> set (accessibleSites g). isObjectId x"
  shows "authorizedGroups_filter charger gs = Inr []"
proof -
  have "Site_toString d \<notin> set (accessibleSites g)" if "g \<in> set gs" for g
    using that assms(2) isObjectId_not_Site_toString by blast
  then have "filter (\<lambda>g. Site_toString d \<in> set (accessibleSites g)) gs = []"
    by (simp add: filter_empty_conv)
  with assms(1) show ?thesis by (simp add: authorizedGroups_filter_Some)
qed

subsection \<open>The rate loop\<close>

lemma bestRate_loop_min:
  "bestRate_loop b (t # ts) time = bestRate_loop (min b (effectiveRate t time)) ts time"
  by (simp add: min_def)

text \<open>
  What the loop computes: the least of its starting value and the effective rates of the
  tariffs it runs over.
\<close>

lemma bestRate_loop_Min:
  "bestRate_loop b ts time = Min (insert b ((\<lambda>t. effectiveRate t time) ` set ts))"
proof (induction ts arbitrary: b)
  case Nil
  show ?case by simp
next
  case (Cons t ts)
  let ?S = "(\<lambda>t. effectiveRate t time) ` set ts"
  let ?e = "effectiveRate t time"
  have "bestRate_loop b (t # ts) time = Min (insert (min b ?e) ?S)"
    unfolding bestRate_loop_min using Cons.IH .
  also have "\<dots> = Min (insert b (insert ?e ?S))"
    by (cases "?S = {}") (simp_all add: min.assoc)
  finally show ?case by simp
qed

lemma bestRate_loop_nonneg:
  "0 \<le> b \<Longrightarrow> \<forall>t \<in> set ts. 0 \<le> effectiveRate t time \<Longrightarrow> 0 \<le> bestRate_loop b ts time"
  by (induction ts arbitrary: b) auto

lemma effectiveRate_nonneg:
  assumes "0 \<le> ratePerKwh t"
    and "\<And>rules r. timeRules t = Some rules \<Longrightarrow> r \<in> set rules \<Longrightarrow> 0 \<le> rateMultiplier r"
  shows "0 \<le> effectiveRate t time"
proof (cases "timeRules t")
  case None
  with assms(1) show ?thesis by (simp add: effectiveRate_def)
next
  case (Some rules)
  show ?thesis
  proof (cases "find (rule_matches (getHours time)) rules")
    case None
    with Some assms(1) show ?thesis by (simp add: effectiveRate_def)
  next
    case (Some r)
    then have "r \<in> set rules" by (auto simp: find_Some_iff)
    with assms \<open>timeRules t = Some rules\<close> Some show ?thesis
      by (simp add: effectiveRate_def)
  qed
qed

lemma find_skip:
  "\<not> P x \<Longrightarrow> find P (xs @ x # ys) = find P (xs @ ys)"
  by (induction xs) simp_all

subsection \<open>The path of a charger that is found and is not the free private one\<close>

lemma try_regular:
  assumes "castObjectId chargerId = Some cid" and "Charger db = Inr docs"
    and "find (\<lambda>c. charger_id c = cid) docs = Some charger"
    and "\<not> (accessType charger = PRIVATE \<and> billableType charger = Some NON_BILLABLE)"
  shows "authorizeAndPrice_try db userId chargerId time =
    (case UserGroup_find db userId of
       Inl e \<Rightarrow> Inl e
     | Inr userGroups \<Rightarrow>
         if length userGroups = 0
         then Inr (denied ''User has no group membership'')
         else
           (case authorizedGroups_filter charger userGroups of
              Inl e \<Rightarrow> Inl e
            | Inr authorizedGroups \<Rightarrow>
                if length authorizedGroups = 0
                then Inr (denied ''User's groups do not have access to this site'')
                else
                  (case Tariff_find db chargerId (map group_id authorizedGroups) of
                     Inl e \<Rightarrow> Inl e
                   | Inr applicableTariffs \<Rightarrow>
                       (case applicableTariffs of
                          [] \<Rightarrow> Inr (denied ''No pricing tariff available for this charger'')
                        | first # _ \<Rightarrow>
                            Inr (granted
                              (bestRate_loop (ratePerKwh first) applicableTariffs time))))))"
  using assms by (auto simp: authorizeAndPrice_try_def Charger_findById_def)

text \<open>
  With the site of a populated document and ObjectIds in the groups, a station that is
  found and is not the free private one is denied for site access to every user who has a
  group: the lines 49 to 91 are not reached.
\<close>

lemma populated_site_is_denied:
  assumes "castObjectId chargerId = Some cid" and "Charger db = Inr docs"
    and "find (\<lambda>c. charger_id c = cid) docs = Some charger"
    and "\<not> (accessType charger = PRIVATE \<and> billableType charger = Some NON_BILLABLE)"
    and "site charger = Some (Site_toString d)"
    and "castObjectId userId = Some uid" and "UserGroup db = Inr groups"
    and "\<exists>g \<in> set groups. uid \<in> set (users g)"
    and "\<forall>g \<in> set groups. \<forall>x \<in> set (accessibleSites g). isObjectId x"
  shows "authorizeAndPrice db userId chargerId time
    = denied ''User's groups do not have access to this site''"
proof -
  let ?ug = "filter (\<lambda>g. uid \<in> set (users g)) groups"
  from assms(8) have "?ug \<noteq> []" by (auto simp: filter_empty_conv)
  moreover from assms(9) have "\<forall>g \<in> set ?ug. \<forall>x \<in> set (accessibleSites g). isObjectId x"
    by auto
  with assms(5) have "authorizedGroups_filter charger ?ug = Inr []"
    by (rule populated_site_admits_no_group)
  ultimately show ?thesis
    using assms(6,7)
    by (simp add: authorizeAndPrice_def try_regular [OF assms(1-4)] UserGroup_find_def)
qed

section \<open>Site access on the populated station\<close>

text \<open>
  Claim C1: when the station exists, is not the free private one, a group of the user has
  access to its site and some tariff applies, the result is a grant at the minimum of the
  applicable tariffs' effective rates. The code compares, in line 38, the ids of a group's
  accessible sites with \<open>charger.site.toString()\<close>; line 16 has populated \<open>site\<close>, so this
  is the text of the site document and equals no id. Here the user is in a group whose
  accessible sites hold the id of the station's site, and the group has a tariff for the
  station with effective rate 20 at ten o'clock; the code denies for site access.
\<close>

theorem site_comparison_denies_priced_access:
  "Charger_findById store_depot id_public = Inr (Some charger_public)
   \<and> \<not> (accessType charger_public = PRIVATE \<and> billableType charger_public = Some NON_BILLABLE)
   \<and> site charger_public = Some (Site_toString site_depot)
   \<and> UserGroup_find store_depot user_ada = Inr [group_fleet]
   \<and> site_id site_depot \<in> set (accessibleSites group_fleet)
   \<and> Tariff_find store_depot id_public [group_id group_fleet] = Inr [tariff_surge]
   \<and> effectiveRate tariff_surge ten_o_clock = 20
   \<and> authorizeAndPrice store_depot user_ada id_public ten_o_clock
       = denied ''User's groups do not have access to this site''"
  by (simp add: eval_defs example_defs)

text \<open>
  Claim C5: when the station exists, is not the free private one, and a group of the user
  has access to the station's site, but no tariff is for the station and such a group, the
  result is the denial for missing pricing. Here the only tariff of the station is for
  another group; the code denies for site access, by the comparison of line 38, and does
  not reach the tariff query.
\<close>

theorem site_comparison_denies_unpriced_access:
  "Charger_findById (store_depot\<lparr>Tariff := Inr [tariff_flat]\<rparr>) id_public
     = Inr (Some charger_public)
   \<and> \<not> (accessType charger_public = PRIVATE \<and> billableType charger_public = Some NON_BILLABLE)
   \<and> site charger_public = Some (Site_toString site_depot)
   \<and> UserGroup_find (store_depot\<lparr>Tariff := Inr [tariff_flat]\<rparr>) user_ada = Inr [group_fleet]
   \<and> site_id site_depot \<in> set (accessibleSites group_fleet)
   \<and> Tariff_find (store_depot\<lparr>Tariff := Inr [tariff_flat]\<rparr>) id_public [group_id group_fleet]
       = Inr []
   \<and> authorizeAndPrice (store_depot\<lparr>Tariff := Inr [tariff_flat]\<rparr>) user_ada id_public
         ten_o_clock
       = denied ''User's groups do not have access to this site''
   \<and> authorizeAndPrice (store_depot\<lparr>Tariff := Inr [tariff_flat]\<rparr>) user_ada id_public
         ten_o_clock
       \<noteq> denied ''No pricing tariff available for this charger''"
  by (simp add: eval_defs example_defs)

section \<open>The free private charger\<close>

text \<open>
  Claim C3: a station that exists and has access type private and billable type
  non-billable is granted at rate 0, for every user and every time. Nothing is assumed of
  the user, the user groups and the tariffs, and replacing both collections by anything, a
  failing one included, does not change the result. The station exists when the id names a
  document of the collection.
\<close>

theorem private_non_billable_is_free:
  assumes "castObjectId chargerId = Some cid" and "Charger db = Inr docs"
    and "find (\<lambda>c. charger_id c = cid) docs = Some charger"
    and "accessType charger = PRIVATE" and "billableType charger = Some NON_BILLABLE"
  shows "authorizeAndPrice db userId chargerId time = granted 0
       \<and> authorizeAndPrice (db\<lparr>UserGroup := anyGroups, Tariff := anyTariffs\<rparr>) userId chargerId time
           = granted 0"
  using assms by (simp add: pipeline_defs)

theorem private_non_billable_is_free_witness:
  "castObjectId id_owner = Some id_owner
   \<and> Charger (store_depot\<lparr>Tariff := Inl MongoError\<rparr>)
     = Inr [charger_owner, charger_public, charger_orphan, charger_keyless]
   \<and> find (\<lambda>c. charger_id c = id_owner)
         [charger_owner, charger_public, charger_orphan, charger_keyless]
       = Some charger_owner
   \<and> accessType charger_owner = PRIVATE \<and> billableType charger_owner = Some NON_BILLABLE
   \<and> UserGroup_find (store_depot\<lparr>Tariff := Inl MongoError\<rparr>) user_bob = Inr []
   \<and> authorizeAndPrice (store_depot\<lparr>Tariff := Inl MongoError\<rparr>) user_bob id_owner eleven_pm
       = granted 0"
proof -
  have found: "castObjectId id_owner = Some id_owner"
    by (rule cast_example_ids)
  have docs: "Charger (store_depot\<lparr>Tariff := Inl MongoError\<rparr>)
      = Inr [charger_owner, charger_public, charger_orphan, charger_keyless]"
    by (simp add: store_depot_def)
  have charger: "find (\<lambda>c. charger_id c = id_owner)
       [charger_owner, charger_public, charger_orphan, charger_keyless]
      = Some charger_owner"
    by (rule find_example_chargers)
  note found = found docs charger
  have special: "accessType charger_owner = PRIVATE"
    "billableType charger_owner = Some NON_BILLABLE"
    by (simp_all add: charger_owner_def)
  have "UserGroup_find (store_depot\<lparr>Tariff := Inl MongoError\<rparr>) user_bob = Inr []"
    by (simp add: UserGroup_find_def cast_defs store_depot_def group_fleet_def id_defs)
  with found special private_non_billable_is_free [OF found special] show ?thesis by simp
qed

section \<open>Denials\<close>

text \<open>
  Claim C6: for a user who belongs to zero groups and a station that exists and is not the
  free private one, the result is the denial for missing group membership. Nothing is
  assumed of the station's site, of site access or of the tariffs: the check comes first.
  The user is given by an id, of which no group lists the ObjectId.
\<close>

theorem no_group_membership_is_denied:
  assumes "castObjectId chargerId = Some cid" and "Charger db = Inr docs"
    and "find (\<lambda>c. charger_id c = cid) docs = Some charger"
    and "\<not> (accessType charger = PRIVATE \<and> billableType charger = Some NON_BILLABLE)"
    and "castObjectId userId = Some uid" and "UserGroup db = Inr groups"
    and "\<forall>g \<in> set groups. uid \<notin> set (users g)"
  shows "authorizeAndPrice db userId chargerId time = denied ''User has no group membership''"
proof -
  from assms(7) have "filter (\<lambda>g. uid \<in> set (users g)) groups = []"
    by (simp add: filter_empty_conv)
  with assms(5,6) show ?thesis
    by (simp add: authorizeAndPrice_def try_regular [OF assms(1-4)] UserGroup_find_def)
qed

theorem no_group_membership_is_denied_witness:
  "castObjectId id_public = Some id_public
   \<and> Charger store_depot = Inr [charger_owner, charger_public, charger_orphan, charger_keyless]
   \<and> find (\<lambda>c. charger_id c = id_public)
         [charger_owner, charger_public, charger_orphan, charger_keyless]
       = Some charger_public
   \<and> \<not> (accessType charger_public = PRIVATE \<and> billableType charger_public = Some NON_BILLABLE)
   \<and> castObjectId user_bob = Some user_bob
   \<and> UserGroup store_depot = Inr [group_fleet]
   \<and> user_bob \<notin> set (users group_fleet)
   \<and> authorizeAndPrice store_depot user_bob id_public ten_o_clock
       = denied ''User has no group membership''"
proof -
  have found: "castObjectId id_public = Some id_public"
    by (rule cast_example_ids)
  have docs: "Charger store_depot = Inr [charger_owner, charger_public, charger_orphan, charger_keyless]"
    by (simp add: store_depot_def)
  have charger: "find (\<lambda>c. charger_id c = id_public)
       [charger_owner, charger_public, charger_orphan, charger_keyless]
      = Some charger_public"
    by (rule find_example_chargers)
  note found = found docs charger
  have regular:
    "\<not> (accessType charger_public = PRIVATE \<and> billableType charger_public = Some NON_BILLABLE)"
    by (simp add: charger_public_def)
  have groups: "castObjectId user_bob = Some user_bob" "UserGroup store_depot = Inr [group_fleet]"
    by (simp_all add: cast_example_ids store_depot_def)
  have stranger: "\<forall>g \<in> set [group_fleet]. user_bob \<notin> set (users g)"
    by (simp add: group_fleet_def id_defs)
  from found regular groups stranger
    no_group_membership_is_denied [OF found regular groups stranger]
  show ?thesis by simp
qed

section \<open>Access type\<close>

text \<open>
  Claim C7: outside the free private case the decision does not depend on the access type
  or the billable type. Two stores hold, under the same id, two stations that differ in
  these two fields at most, neither of them private and non-billable; the groups and the
  tariffs are the same. Then every user gets the same result at every time.
\<close>

theorem accessType_not_distinguished:
  assumes "castObjectId chargerId = Some cid" and "Charger db = Inr docs"
    and "find (\<lambda>c. charger_id c = cid) docs = Some charger"
    and "\<not> (accessType charger = PRIVATE \<and> billableType charger = Some NON_BILLABLE)"
    and "Charger db' = Inr docs'"
    and "find (\<lambda>c. charger_id c = cid) docs'
           = Some (charger\<lparr>accessType := access', billableType := billable'\<rparr>)"
    and "\<not> (access' = PRIVATE \<and> billable' = Some NON_BILLABLE)"
    and "UserGroup db' = UserGroup db" and "Tariff db' = Tariff db"
  shows "authorizeAndPrice db' userId chargerId time = authorizeAndPrice db userId chargerId time"
proof -
  let ?c' = "charger\<lparr>accessType := access', billableType := billable'\<rparr>"
  have groups: "authorizedGroups_filter ?c' = authorizedGroups_filter charger"
    by (rule ext, rule authorizedGroups_filter_cong) simp
  have tariffs: "Tariff_find db' = Tariff_find db"
    using assms(9) by (simp add: Tariff_find_def fun_eq_iff split: option.splits)
  have users: "UserGroup_find db' = UserGroup_find db"
    using assms(8) by (simp add: UserGroup_find_def fun_eq_iff split: option.splits)
  from assms(7)
  have regular': "\<not> (accessType ?c' = PRIVATE \<and> billableType ?c' = Some NON_BILLABLE)"
    by simp
  show ?thesis
    unfolding authorizeAndPrice_def try_regular [OF assms(1-4)]
      try_regular [OF assms(1,5,6) regular'] groups tariffs users ..
qed

theorem accessType_not_distinguished_witness:
  "castObjectId id_public = Some id_public
   \<and> Charger store_depot = Inr [charger_owner, charger_public, charger_orphan, charger_keyless]
   \<and> find (\<lambda>c. charger_id c = id_public)
         [charger_owner, charger_public, charger_orphan, charger_keyless]
       = Some charger_public
   \<and> \<not> (accessType charger_public = PRIVATE \<and> billableType charger_public = Some NON_BILLABLE)
   \<and> find (\<lambda>c. charger_id c = id_public)
         [charger_public\<lparr>accessType := PRIVATE, billableType := Some BILLABLE\<rparr>]
       = Some (charger_public\<lparr>accessType := PRIVATE, billableType := Some BILLABLE\<rparr>)
   \<and> authorizeAndPrice
         (store_depot\<lparr>Charger :=
            Inr [charger_public\<lparr>accessType := PRIVATE, billableType := Some BILLABLE\<rparr>]\<rparr>)
         user_ada id_public ten_o_clock
       = authorizeAndPrice store_depot user_ada id_public ten_o_clock"
proof -
  let ?c' = "charger_public\<lparr>accessType := PRIVATE, billableType := Some BILLABLE\<rparr>"
  let ?db' = "store_depot\<lparr>Charger := Inr [?c']\<rparr>"
  have found: "castObjectId id_public = Some id_public"
    by (rule cast_example_ids)
  have docs: "Charger store_depot = Inr [charger_owner, charger_public, charger_orphan, charger_keyless]"
    by (simp add: store_depot_def)
  have charger: "find (\<lambda>c. charger_id c = id_public)
       [charger_owner, charger_public, charger_orphan, charger_keyless]
      = Some charger_public"
    by (rule find_example_chargers)
  note found = found docs charger
  have regular:
    "\<not> (accessType charger_public = PRIVATE \<and> billableType charger_public = Some NON_BILLABLE)"
    by (simp add: charger_public_def)
  have found': "Charger ?db' = Inr [?c']"
    "find (\<lambda>c. charger_id c = id_public) [?c'] = Some ?c'"
    by (simp_all add: charger_public_def)
  have regular': "\<not> (PRIVATE = PRIVATE \<and> Some BILLABLE = Some NON_BILLABLE)" by simp
  have same: "UserGroup ?db' = UserGroup store_depot" "Tariff ?db' = Tariff store_depot"
    by simp_all
  from found regular found'(2)
    accessType_not_distinguished [OF found regular found' regular' same]
  show ?thesis by simp
qed

section \<open>The shape and the sign of the result\<close>

text \<open>
  Claim C10: every result is well formed. It is either a grant, which carries a rate and
  no reason, or a denial, which carries one of the five reasons and no rate.
\<close>

theorem result_well_formed:
  "(\<exists>rate. authorizeAndPrice db userId chargerId time
             = \<lparr>allowed = True, reason = None, resultRatePerKwh = Some rate\<rparr>)
   \<or> (\<exists>why. why \<in> set [''Charger not found'', ''User has no group membership'',
                          ''User's groups do not have access to this site'',
                          ''No pricing tariff available for this charger'',
                          ''System error occurred'']
          \<and> authorizeAndPrice db userId chargerId time
               = \<lparr>allowed = False, reason = Some why, resultRatePerKwh = None\<rparr>)"
  by (simp add: pipeline_defs granted_def denied_def
      split: sum.splits option.splits list.splits)

text \<open>
  Claim C8: a granted rate is never negative, provided every applicable tariff (a tariff
  of this station for a group of the user that has access to the station's site) has a
  non-negative base rate and non-negative multipliers on all its time rules. The grant of
  the free private charger is covered: its rate is 0.
\<close>

theorem granted_rate_nonneg:
  assumes rate: "allowed (authorizeAndPrice db userId chargerId time)"
      "resultRatePerKwh (authorizeAndPrice db userId chargerId time) = Some r"
    and nonneg: "\<And>cid uid docs charger s groups g tariffDocs t.
      \<lbrakk>castObjectId chargerId = Some cid; castObjectId userId = Some uid;
       Charger db = Inr docs; find (\<lambda>c. charger_id c = cid) docs = Some charger;
       site charger = Some s; UserGroup db = Inr groups; g \<in> set groups;
       uid \<in> set (users g); s \<in> set (accessibleSites g);
       Tariff db = Inr tariffDocs; t \<in> set tariffDocs;
       tariffCharger t = cid; tariffGroup t = group_id g\<rbrakk>
      \<Longrightarrow> 0 \<le> ratePerKwh t
        \<and> (\<forall>rules rule. timeRules t = Some rules \<and> rule \<in> set rules \<longrightarrow> 0 \<le> rateMultiplier rule)"
  shows "0 \<le> r"
proof (cases "castObjectId chargerId")
  case None
  with rate show ?thesis by (simp add: pipeline_defs denied_def)
next
  case cid: (Some cid)
  show ?thesis
  proof (cases "Charger db")
    case (Inl e)
    with cid rate show ?thesis by (simp add: pipeline_defs denied_def)
  next
    case docs: (Inr docs)
    show ?thesis
    proof (cases "find (\<lambda>c. charger_id c = cid) docs")
      case None
      with cid docs rate show ?thesis by (simp add: pipeline_defs denied_def)
    next
      case charger: (Some charger)
      show ?thesis
      proof (cases "accessType charger = PRIVATE \<and> billableType charger = Some NON_BILLABLE")
        case True
        with cid docs charger rate show ?thesis by (simp add: pipeline_defs granted_def)
      next
        case regular: False
        note tail = try_regular [OF cid docs charger regular]
        show ?thesis
        proof (cases "castObjectId userId")
          case None
          with rate show ?thesis
            by (simp add: authorizeAndPrice_def tail UserGroup_find_def denied_def)
        next
          case uid: (Some uid)
          show ?thesis
          proof (cases "UserGroup db")
            case (Inl e)
            with uid rate show ?thesis
              by (simp add: authorizeAndPrice_def tail UserGroup_find_def denied_def)
          next
            case groups: (Inr groups)
            let ?ug = "filter (\<lambda>g. uid \<in> set (users g)) groups"
            have users: "UserGroup_find db userId = Inr ?ug"
              using uid groups by (simp add: UserGroup_find_def)
            show ?thesis
            proof (cases "site charger")
              case None
              from authorizedGroups_filter_None [OF None]
              have "authorizedGroups_filter charger ?ug = Inr ags \<Longrightarrow> ags = []" for ags .
              with rate show ?thesis
                by (auto simp: authorizeAndPrice_def tail users denied_def
                    split: sum.splits if_splits)
            next
              case site: (Some s)
              let ?ag = "filter (\<lambda>g. s \<in> set (accessibleSites g)) ?ug"
              have access: "authorizedGroups_filter charger ?ug = Inr ?ag"
                using site by (rule authorizedGroups_filter_Some)
              show ?thesis
              proof (cases "Tariff db")
                case (Inl e)
                with cid rate show ?thesis
                  by (auto simp: authorizeAndPrice_def tail users access Tariff_find_def
                      denied_def split: if_splits)
              next
                case tariffs: (Inr tariffDocs)
                let ?app = "filter (\<lambda>t. tariffCharger t = cid
                              \<and> tariffGroup t \<in> set (map group_id ?ag)) tariffDocs"
                have find: "Tariff_find db chargerId (map group_id ?ag) = Inr ?app"
                  using cid tariffs by (simp add: Tariff_find_def)
                have res: "authorizeAndPrice_try db userId chargerId time =
                    (if length ?ug = 0 then Inr (denied ''User has no group membership'')
                     else if length ?ag = 0
                       then Inr (denied ''User's groups do not have access to this site'')
                       else (case ?app of
                          [] \<Rightarrow> Inr (denied ''No pricing tariff available for this charger'')
                        | first # _ \<Rightarrow>
                            Inr (granted (bestRate_loop (ratePerKwh first) ?app time))))"
                  unfolding tail users access find sum.case ..
                have ok: "0 \<le> ratePerKwh t \<and> 0 \<le> effectiveRate t time"
                  if "t \<in> set ?app" for t
                proof -
                  from that obtain g where g: "g \<in> set groups" "uid \<in> set (users g)"
                    "s \<in> set (accessibleSites g)" "tariffGroup t = group_id g"
                    and t: "t \<in> set tariffDocs" "tariffCharger t = cid"
                    by auto
                  from nonneg [OF cid uid docs charger site groups g(1-3) tariffs t g(4)]
                  show ?thesis by (auto intro: effectiveRate_nonneg)
                qed
                show ?thesis
                proof (cases ?app)
                  case Nil
                  with rate show ?thesis
                    by (auto simp: authorizeAndPrice_def res denied_def split: if_splits)
                next
                  case (Cons first rest)
                  then have "first \<in> set ?app" by simp
                  with ok have "0 \<le> ratePerKwh first" by blast
                  moreover from ok have "\<forall>t \<in> set ?app. 0 \<le> effectiveRate t time" by blast
                  ultimately have "0 \<le> bestRate_loop (ratePerKwh first) ?app time"
                    by (rule bestRate_loop_nonneg)
                  with Cons rate show ?thesis
                    by (auto simp: authorizeAndPrice_def res denied_def granted_def
                        split: if_splits)
                qed
              qed
            qed
          qed
        qed
      qed
    qed
  qed
qed


theorem granted_rate_nonneg_witness:
  "allowed (authorizeAndPrice store_depot user_ada id_owner ten_o_clock)
   \<and> resultRatePerKwh (authorizeAndPrice store_depot user_ada id_owner ten_o_clock) = Some 0
   \<and> Tariff store_depot = Inr [tariff_surge, tariff_owner]
   \<and> tariffCharger tariff_owner = id_owner \<and> tariffGroup tariff_owner = group_id group_fleet
   \<and> user_ada \<in> set (users group_fleet)
   \<and> 0 \<le> ratePerKwh tariff_owner
   \<and> timeRules tariff_owner = Some [rule_midday]
   \<and> list_all (\<lambda>rule. 0 \<le> rateMultiplier rule) [rule_midday]
   \<and> 0 \<le> ratePerKwh tariff_surge
   \<and> timeRules tariff_surge = Some [rule_surge, rule_midday]
   \<and> list_all (\<lambda>rule. 0 \<le> rateMultiplier rule) [rule_surge, rule_midday]
   \<and> (0::real) \<le> 0"
proof -
  let ?result = "authorizeAndPrice store_depot user_ada id_owner ten_o_clock"
  have "?result = granted 0"
    by (simp add: eval_defs example_defs)
  then have rate: "allowed ?result" "resultRatePerKwh ?result = Some 0"
    by (simp_all add: granted_def)
  have store: "Tariff store_depot = Inr [tariff_surge, tariff_owner]"
    by (simp add: store_depot_def)
  have owner: "tariffCharger tariff_owner = id_owner"
    "tariffGroup tariff_owner = group_id group_fleet" "user_ada \<in> set (users group_fleet)"
    by (simp_all add: tariff_owner_def group_fleet_def)
  have valid: "0 \<le> ratePerKwh tariff_owner" "timeRules tariff_owner = Some [rule_midday]"
    "list_all (\<lambda>rule. 0 \<le> rateMultiplier rule) [rule_midday]"
    "0 \<le> ratePerKwh tariff_surge" "timeRules tariff_surge = Some [rule_surge, rule_midday]"
    "list_all (\<lambda>rule. 0 \<le> rateMultiplier rule) [rule_surge, rule_midday]"
    by (simp_all add: tariff_owner_def tariff_surge_def rule_surge_def rule_midday_def)
  have nonneg: "0 \<le> ratePerKwh t
      \<and> (\<forall>rules rule. timeRules t = Some rules \<and> rule \<in> set rules \<longrightarrow> 0 \<le> rateMultiplier rule)"
    if "castObjectId id_owner = Some cid" and "castObjectId user_ada = Some uid"
      and "Charger store_depot = Inr docs"
      and "find (\<lambda>c. charger_id c = cid) docs = Some charger"
      and "site charger = Some s" and "UserGroup store_depot = Inr groups"
      and "g \<in> set groups" and "uid \<in> set (users g)"
      and "s \<in> set (accessibleSites g)"
      and "Tariff store_depot = Inr tariffDocs" and "t \<in> set tariffDocs"
      and "tariffCharger t = cid" and "tariffGroup t = group_id g"
    for cid uid docs charger s groups g tariffDocs t
  proof -
    from that(10,11) store have "t = tariff_surge \<or> t = tariff_owner" by auto
    with valid show ?thesis by auto
  qed
  have "(0::real) \<le> 0"
    by (rule granted_rate_nonneg [OF rate nonneg])
  with rate store owner valid show ?thesis by simp
qed

section \<open>Time rules\<close>

lemma getHours_range: "0 \<le> getHours time \<and> getHours time < 24"
  by (simp add: getHours_def)

text \<open>
  Claim C4: the effective rate of a tariff at a time is its base rate times the multiplier
  of the first time rule, in stored order, whose half-open interval from \<open>startHour\<close> to
  \<open>endHour\<close> contains the hour of the day; it is the base rate when no rule's interval
  contains the hour, and when the tariff has no time rules. The rule at index \<open>i\<close> is the
  first one when no rule at a smaller index contains the hour; rules after it do not
  matter, so of two rules that both cover the hour the earlier one is applied. The hour
  of the day lies between 0 and 23.
\<close>

theorem effectiveRate_first_matching_rule:
  "(timeRules tariff = None \<longrightarrow> effectiveRate tariff time = ratePerKwh tariff)
   \<and> (timeRules tariff = Some rules \<and> i < length rules
        \<and> real_of_int (getHours time) \<in> {startHour (rules ! i) ..< endHour (rules ! i)}
        \<and> (\<forall>j < i. real_of_int (getHours time) \<notin> {startHour (rules ! j) ..< endHour (rules ! j)})
        \<longrightarrow> effectiveRate tariff time = ratePerKwh tariff * rateMultiplier (rules ! i))
   \<and> (timeRules tariff = Some rules
        \<and> (\<forall>rule \<in> set rules.
              real_of_int (getHours time) \<notin> {startHour rule ..< endHour rule})
        \<longrightarrow> effectiveRate tariff time = ratePerKwh tariff)
   \<and> 0 \<le> getHours time \<and> getHours time < 24"
proof (intro conjI impI)
  assume "timeRules tariff = None"
  then show "effectiveRate tariff time = ratePerKwh tariff" by (simp add: effectiveRate_def)
next
  let ?P = "rule_matches (getHours time)"
  assume a: "timeRules tariff = Some rules \<and> i < length rules
    \<and> real_of_int (getHours time) \<in> {startHour (rules ! i) ..< endHour (rules ! i)}
    \<and> (\<forall>j < i. real_of_int (getHours time) \<notin> {startHour (rules ! j) ..< endHour (rules ! j)})"
  then have "i < length rules \<and> ?P (rules ! i) \<and> (\<forall>j < i. \<not> ?P (rules ! j))"
    by (simp add: rule_matches_def)
  then have "find ?P rules = Some (rules ! i)"
    unfolding find_Some_iff by blast
  with a show "effectiveRate tariff time = ratePerKwh tariff * rateMultiplier (rules ! i)"
    by (simp add: effectiveRate_def)
next
  let ?P = "rule_matches (getHours time)"
  assume a: "timeRules tariff = Some rules
    \<and> (\<forall>rule \<in> set rules. real_of_int (getHours time) \<notin> {startHour rule ..< endHour rule})"
  then have "\<forall>rule \<in> set rules. \<not> ?P rule" by (simp add: rule_matches_def)
  then have "find ?P rules = None" by (simp add: find_None_iff)
  with a show "effectiveRate tariff time = ratePerKwh tariff" by (simp add: effectiveRate_def)
qed (simp_all add: getHours_def)

theorem effectiveRate_first_matching_rule_witness:
  "timeRules tariff_flat = None
   \<and> effectiveRate tariff_flat ten_o_clock = ratePerKwh tariff_flat
   \<and> timeRules tariff_surge = Some [rule_surge, rule_midday]
   \<and> getHours ten_o_clock = 10
   \<and> real_of_int 10 \<in> {startHour rule_surge ..< endHour rule_surge}
   \<and> real_of_int 10 \<in> {startHour rule_midday ..< endHour rule_midday}
   \<and> rateMultiplier rule_surge \<noteq> rateMultiplier rule_midday
   \<and> effectiveRate tariff_surge ten_o_clock = ratePerKwh tariff_surge * rateMultiplier rule_surge
   \<and> getHours eleven_pm = 23
   \<and> real_of_int 23 \<notin> {startHour rule_surge ..< endHour rule_surge}
   \<and> real_of_int 23 \<notin> {startHour rule_midday ..< endHour rule_midday}
   \<and> effectiveRate tariff_surge eleven_pm = ratePerKwh tariff_surge"
proof -
  have flat: "timeRules tariff_flat = None" by (simp add: tariff_flat_def)
  have rules: "timeRules tariff_surge = Some [rule_surge, rule_midday]"
    by (simp add: tariff_surge_def)
  have hours: "getHours ten_o_clock = 10" "getHours eleven_pm = 23"
    by (simp_all add: getHours_def ten_o_clock_def eleven_pm_def)
  have both: "real_of_int 10 \<in> {startHour rule_surge ..< endHour rule_surge}"
    "real_of_int 10 \<in> {startHour rule_midday ..< endHour rule_midday}"
    "rateMultiplier rule_surge \<noteq> rateMultiplier rule_midday"
    by (simp_all add: rule_surge_def rule_midday_def)
  have neither: "real_of_int 23 \<notin> {startHour rule_surge ..< endHour rule_surge}"
    "real_of_int 23 \<notin> {startHour rule_midday ..< endHour rule_midday}"
    by (simp_all add: rule_surge_def rule_midday_def)
  have "effectiveRate tariff_flat ten_o_clock = ratePerKwh tariff_flat"
    using flat effectiveRate_first_matching_rule [where tariff = tariff_flat and time = ten_o_clock] by simp
  moreover have "effectiveRate tariff_surge ten_o_clock
      = ratePerKwh tariff_surge * rateMultiplier rule_surge"
    using rules hours both
      effectiveRate_first_matching_rule [where tariff = tariff_surge and time = ten_o_clock
        and rules = "[rule_surge, rule_midday]" and i = 0]
    by simp
  moreover have "effectiveRate tariff_surge eleven_pm = ratePerKwh tariff_surge"
    using rules hours neither
      effectiveRate_first_matching_rule [where tariff = tariff_surge and time = eleven_pm
        and rules = "[rule_surge, rule_midday]"]
    by simp
  ultimately show ?thesis using flat rules hours both neither by simp
qed

text \<open>
  Claim C9: intervals do not wrap. A rule whose \<open>startHour\<close> is not below its \<open>endHour\<close>
  contains no hour, is never the rule that \<open>find\<close> selects, and can be removed from the
  rules of a tariff without changing the effective rate at any time: the rate comes from a
  later rule or is the base rate.
\<close>

theorem timeRule_interval_non_wrapping:
  assumes "endHour rule \<le> startHour rule"
  shows "real_of_int hour \<notin> {startHour rule ..< endHour rule}
       \<and> \<not> rule_matches hour rule
       \<and> effectiveRate (tariff\<lparr>timeRules := Some (earlier @ rule # later)\<rparr>) time
           = effectiveRate (tariff\<lparr>timeRules := Some (earlier @ later)\<rparr>) time"
proof -
  from assms have no: "\<not> rule_matches h rule" for h
    by (simp add: rule_matches_def)
  from assms have "real_of_int hour \<notin> {startHour rule ..< endHour rule}" by simp
  with no find_skip [of "rule_matches (getHours time)" rule earlier later]
  show ?thesis by (simp add: effectiveRate_def split: option.splits)
qed

theorem timeRule_interval_non_wrapping_witness:
  "endHour rule_overnight \<le> startHour rule_overnight
   \<and> real_of_int 23 \<notin> {startHour rule_overnight ..< endHour rule_overnight}
   \<and> \<not> rule_matches 23 rule_overnight
   \<and> effectiveRate (tariff_flat\<lparr>timeRules := Some ([] @ rule_overnight # [rule_surge])\<rparr>) eleven_pm
       = effectiveRate (tariff_flat\<lparr>timeRules := Some ([] @ [rule_surge])\<rparr>) eleven_pm"
proof -
  have wraps: "endHour rule_overnight \<le> startHour rule_overnight"
    by (simp add: rule_overnight_def)
  from wraps timeRule_interval_non_wrapping [OF wraps, where hour = 23 and tariff = tariff_flat and earlier = "[]"
      and later = "[rule_surge]" and time = eleven_pm]
  show ?thesis by simp
qed

section \<open>Faults of the store\<close>

text \<open>
  The \<open>try\<close> block in closed form, for a station that is found and is not the free
  private one and a user id that is an ObjectId: first with a \<open>null\<close> site, then with a
  site.
\<close>

lemma authorizedGroups_filter_no_sites:
  "\<forall>g \<in> set gs. accessibleSites g = [] \<Longrightarrow> authorizedGroups_filter charger gs = Inr []"
  by (induction gs) simp_all

lemma try_null_site:
  assumes "castObjectId chargerId = Some cid" and "Charger db = Inr docs"
    and "find (\<lambda>c. charger_id c = cid) docs = Some charger"
    and "\<not> (accessType charger = PRIVATE \<and> billableType charger = Some NON_BILLABLE)"
    and "castObjectId userId = Some uid" and "UserGroup db = Inr groups"
    and "site charger = None"
  shows "authorizeAndPrice_try db userId chargerId time =
    (if \<exists>g \<in> set groups. uid \<in> set (users g)
     then if \<exists>g \<in> set groups. uid \<in> set (users g) \<and> accessibleSites g \<noteq> []
       then Inl TypeError
       else Inr (denied ''User's groups do not have access to this site'')
     else Inr (denied ''User has no group membership''))"
proof -
  let ?ug = "filter (\<lambda>g. uid \<in> set (users g)) groups"
  have users: "UserGroup_find db userId = Inr ?ug"
    using assms(5,6) by (simp add: UserGroup_find_def)
  show ?thesis
  proof (cases "\<exists>g \<in> set groups. uid \<in> set (users g)")
    case False
    then have "?ug = []" by (auto simp: filter_empty_conv)
    then show ?thesis
      unfolding if_not_P [OF False]
      by (simp add: try_regular [OF assms(1-4)] users)
  next
    case member: True
    then have ne: "?ug \<noteq> []" by (auto simp: filter_empty_conv)
    show ?thesis
    proof (cases "\<exists>g \<in> set groups. uid \<in> set (users g) \<and> accessibleSites g \<noteq> []")
      case True
      then have "\<exists>g \<in> set ?ug. accessibleSites g \<noteq> []" by auto
      with assms(7) have "authorizedGroups_filter charger ?ug = Inl TypeError"
        by (rule authorizedGroups_filter_null_site)
      with ne show ?thesis
        unfolding if_P [OF member] if_P [OF True]
        by (simp add: try_regular [OF assms(1-4)] users)
    next
      case False
      then have "\<forall>g \<in> set ?ug. accessibleSites g = []" by auto
      then have "authorizedGroups_filter charger ?ug = Inr []"
        by (rule authorizedGroups_filter_no_sites)
      with ne show ?thesis
        unfolding if_P [OF member] if_not_P [OF False]
        by (simp add: try_regular [OF assms(1-4)] users)
    qed
  qed
qed

lemma try_with_site:
  assumes "castObjectId chargerId = Some cid" and "Charger db = Inr docs"
    and "find (\<lambda>c. charger_id c = cid) docs = Some charger"
    and "\<not> (accessType charger = PRIVATE \<and> billableType charger = Some NON_BILLABLE)"
    and "castObjectId userId = Some uid" and "UserGroup db = Inr groups"
    and "site charger = Some s"
  shows "authorizeAndPrice_try db userId chargerId time =
    (if \<exists>g \<in> set groups. uid \<in> set (users g)
     then if \<exists>g \<in> set groups. uid \<in> set (users g) \<and> s \<in> set (accessibleSites g)
       then (case Tariff db of
               Inl e \<Rightarrow> Inl e
             | Inr tariffDocs \<Rightarrow>
                 (case filter (\<lambda>t. tariffCharger t = cid
                          \<and> (\<exists>g \<in> set groups. uid \<in> set (users g)
                                \<and> s \<in> set (accessibleSites g) \<and> tariffGroup t = group_id g))
                        tariffDocs of
                    [] \<Rightarrow> Inr (denied ''No pricing tariff available for this charger'')
                  | first # rest \<Rightarrow>
                      Inr (granted (bestRate_loop (ratePerKwh first) (first # rest) time))))
       else Inr (denied ''User's groups do not have access to this site'')
     else Inr (denied ''User has no group membership''))"
proof -
  let ?ug = "filter (\<lambda>g. uid \<in> set (users g)) groups"
  let ?ag = "filter (\<lambda>g. s \<in> set (accessibleSites g)) ?ug"
  have users: "UserGroup_find db userId = Inr ?ug"
    using assms(5,6) by (simp add: UserGroup_find_def)
  have access: "authorizedGroups_filter charger ?ug = Inr ?ag"
    using assms(7) by (rule authorizedGroups_filter_Some)
  have same: "(tariffGroup t \<in> set (map group_id ?ag))
      = (\<exists>g \<in> set groups. uid \<in> set (users g) \<and> s \<in> set (accessibleSites g)
          \<and> tariffGroup t = group_id g)" for t
    by auto
  show ?thesis
  proof (cases "\<exists>g \<in> set groups. uid \<in> set (users g)")
    case False
    then have "?ug = []" by (auto simp: filter_empty_conv)
    then show ?thesis
      unfolding if_not_P [OF False]
      by (simp add: try_regular [OF assms(1-4)] users)
  next
    case member: True
    then have ne: "?ug \<noteq> []" by (auto simp: filter_empty_conv)
    show ?thesis
    proof (cases "\<exists>g \<in> set groups. uid \<in> set (users g) \<and> s \<in> set (accessibleSites g)")
      case False
      then have "?ag = []" by (auto simp: filter_empty_conv)
      with ne show ?thesis
        unfolding if_P [OF member] if_not_P [OF False]
        by (simp add: try_regular [OF assms(1-4)] users access del: filter_filter)
    next
      case True
      then have ne': "?ag \<noteq> []" by (auto simp: filter_empty_conv)
      have "authorizeAndPrice_try db userId chargerId time =
          (case Tariff_find db chargerId (map group_id ?ag) of
             Inl e \<Rightarrow> Inl e
           | Inr applicableTariffs \<Rightarrow>
               (case applicableTariffs of
                  [] \<Rightarrow> Inr (denied ''No pricing tariff available for this charger'')
                | first # _ \<Rightarrow>
                    Inr (granted (bestRate_loop (ratePerKwh first) applicableTariffs time))))"
        using ne ne'
        by (simp add: try_regular [OF assms(1-4)] users access del: filter_filter)
      also have "\<dots> = (case Tariff db of
               Inl e \<Rightarrow> Inl e
             | Inr tariffDocs \<Rightarrow>
                 (case filter (\<lambda>t. tariffCharger t = cid
                          \<and> (\<exists>g \<in> set groups. uid \<in> set (users g)
                                \<and> s \<in> set (accessibleSites g) \<and> tariffGroup t = group_id g))
                        tariffDocs of
                    [] \<Rightarrow> Inr (denied ''No pricing tariff available for this charger'')
                  | first # rest \<Rightarrow>
                      Inr (granted (bestRate_loop (ratePerKwh first) (first # rest) time))))"
        unfolding Tariff_find_def assms(1) option.case same
        by (simp split: sum.splits list.splits)
      finally show ?thesis unfolding if_P [OF member] if_P [OF True] .
    qed
  qed
qed

text \<open>
  Claim C2: no exception leaves \<open>authorizeAndPrice\<close>, and every fault of a collaborator,
  malformed data included, is reported as the system-error denial, never as a grant. The
  code catches what is thrown and checks no data. A station whose site reference dangles
  is malformed data of the station lookup: on the free private station the result is the
  grant at rate 0, and for a user without groups it is the membership denial; neither is
  the system-error denial.
\<close>

theorem malformed_site_is_not_system_error:
  "Charger_findById store_depot id_keyless = Inr (Some charger_keyless)
   \<and> site charger_keyless = None
   \<and> authorizeAndPrice store_depot user_ada id_keyless ten_o_clock
       = \<lparr>allowed = True, reason = None, resultRatePerKwh = Some 0\<rparr>
   \<and> Charger_findById store_depot id_orphan = Inr (Some charger_orphan)
   \<and> site charger_orphan = None
   \<and> authorizeAndPrice store_depot user_bob id_orphan ten_o_clock
       = \<lparr>allowed = False, reason = Some ''User has no group membership'',
           resultRatePerKwh = None\<rparr>"
  by (simp add: eval_defs example_defs)

text \<open>
  Claim C2 as amended: no exception leaves \<open>authorizeAndPrice\<close>; every evaluation ends
  with a result, and the result is the system-error denial exactly when something is
  thrown on the way: the id of the station or of the user is not an ObjectId when its
  query is made, a collection cannot be read when its query is made, or the site
  comparison of line 38 runs on a \<open>null\<close> site. The group query, the comparison and the
  tariff query are made only for a station that is found and is not the free private one;
  the comparison runs when a group of the user lists a site; the tariff query is made
  when a group of the user passes the comparison. Data that is malformed and makes nothing
  throw is not reported.
\<close>

theorem thrown_fault_is_system_error:
  "authorizeAndPrice db userId chargerId time = denied ''System error occurred'' \<longleftrightarrow>
     castObjectId chargerId = None
     \<or> (\<exists>e. Charger db = Inl e)
     \<or> (\<exists>cid docs charger.
          castObjectId chargerId = Some cid \<and> Charger db = Inr docs
          \<and> find (\<lambda>c. charger_id c = cid) docs = Some charger
          \<and> \<not> (accessType charger = PRIVATE \<and> billableType charger = Some NON_BILLABLE)
          \<and> (castObjectId userId = None
             \<or> (\<exists>e. UserGroup db = Inl e)
             \<or> (\<exists>uid groups.
                  castObjectId userId = Some uid \<and> UserGroup db = Inr groups
                  \<and> (site charger = None
                       \<and> (\<exists>g \<in> set groups. uid \<in> set (users g) \<and> accessibleSites g \<noteq> [])
                     \<or> (\<exists>s e. site charger = Some s \<and> Tariff db = Inl e
                          \<and> (\<exists>g \<in> set groups.
                                uid \<in> set (users g) \<and> s \<in> set (accessibleSites g)))))))"
  (is "?sys \<longleftrightarrow> ?fault")
proof (cases "castObjectId chargerId")
  case None
  then show ?thesis by (simp add: pipeline_defs)
next
  case cid: (Some cid)
  show ?thesis
  proof (cases "Charger db")
    case (Inl e)
    with cid show ?thesis by (simp add: pipeline_defs)
  next
    case docs: (Inr docs)
    show ?thesis
    proof (cases "find (\<lambda>c. charger_id c = cid) docs")
      case None
      with cid docs show ?thesis by (simp add: pipeline_defs denied_def)
    next
      case charger: (Some charger)
      show ?thesis
      proof (cases "accessType charger = PRIVATE \<and> billableType charger = Some NON_BILLABLE")
        case True
        with cid docs charger show ?thesis by (simp add: pipeline_defs denied_def granted_def)
      next
        case regular: False
        note found = cid docs charger regular
        show ?thesis
        proof (cases "castObjectId userId")
          case None
          then have ?sys
            by (simp add: authorizeAndPrice_def try_regular [OF found] UserGroup_find_def)
          moreover from found None have ?fault by simp
          ultimately show ?thesis by simp
        next
          case uid: (Some uid)
          show ?thesis
          proof (cases "UserGroup db")
            case (Inl e)
            with uid have ?sys
              by (simp add: authorizeAndPrice_def try_regular [OF found] UserGroup_find_def)
            moreover from found Inl have ?fault by simp
            ultimately show ?thesis by simp
          next
            case groups: (Inr groups)
            show ?thesis
            proof (cases "site charger")
              case None
              note tail = try_null_site [OF found uid groups None]
              show ?thesis
              proof (cases "\<exists>g \<in> set groups. uid \<in> set (users g) \<and> accessibleSites g \<noteq> []")
                case True
                then have "\<exists>g \<in> set groups. uid \<in> set (users g)" by blast
                with True have ?sys by (simp add: authorizeAndPrice_def tail)
                moreover from found uid groups None True have ?fault by simp
                ultimately show ?thesis by simp
              next
                case False
                then have "\<not> ?sys"
                  unfolding authorizeAndPrice_def tail if_not_P [OF False]
                  by (simp add: denied_def)
                moreover from found uid groups None False have "\<not> ?fault" by simp
                ultimately show ?thesis by simp
              qed
            next
              case site: (Some s)
              note tail = try_with_site [OF found uid groups site]
              let ?access = "\<exists>g \<in> set groups. uid \<in> set (users g) \<and> s \<in> set (accessibleSites g)"
              show ?thesis
              proof (cases "?access \<and> (\<exists>e. Tariff db = Inl e)")
                case True
                then have "\<exists>g \<in> set groups. uid \<in> set (users g)" by blast
                with True have ?sys by (auto simp: authorizeAndPrice_def tail)
                moreover from found uid groups site True have ?fault by simp
                ultimately show ?thesis by simp
              next
                case False
                then have "\<not> ?sys"
                  by (auto simp: authorizeAndPrice_def tail denied_def granted_def
                      split: sum.splits list.splits)
                moreover from found uid groups site False have "\<not> ?fault" by auto
                ultimately show ?thesis by simp
              qed
            qed
          qed
        qed
      qed
    qed
  qed
qed

theorem thrown_fault_is_system_error_witness:
  "castObjectId ''charger-1'' = None
   \<and> authorizeAndPrice store_depot user_ada ''charger-1'' ten_o_clock
       = denied ''System error occurred''
   \<and> authorizeAndPrice (store_depot\<lparr>Charger := Inl MongoError\<rparr>) user_ada id_public ten_o_clock
       = denied ''System error occurred''
   \<and> castObjectId ''ada'' = None
   \<and> authorizeAndPrice store_depot ''ada'' id_public ten_o_clock
       = denied ''System error occurred''
   \<and> authorizeAndPrice (store_depot\<lparr>UserGroup := Inl MongoError\<rparr>) user_ada id_public
         ten_o_clock
       = denied ''System error occurred''
   \<and> site charger_orphan = None \<and> user_ada \<in> set (users group_fleet)
   \<and> accessibleSites group_fleet \<noteq> []
   \<and> authorizeAndPrice store_depot user_ada id_orphan ten_o_clock
       = denied ''System error occurred''"
proof -
  note sys = thrown_fault_is_system_error [THEN iffD2]
  have bad_ids: "castObjectId ''charger-1'' = None" "castObjectId ''ada'' = None"
    by (simp_all add: cast_defs)
  have orphan: "site charger_orphan = None" "user_ada \<in> set (users group_fleet)"
    "accessibleSites group_fleet \<noteq> []"
    by (simp_all add: charger_orphan_def group_fleet_def)
  have "authorizeAndPrice store_depot user_ada ''charger-1'' ten_o_clock
      = denied ''System error occurred''"
    by (rule sys) (simp add: bad_ids)
  moreover have "authorizeAndPrice (store_depot\<lparr>Charger := Inl MongoError\<rparr>) user_ada id_public
      ten_o_clock = denied ''System error occurred''"
    by (rule sys) simp
  moreover have "authorizeAndPrice store_depot ''ada'' id_public ten_o_clock
      = denied ''System error occurred''"
    by (rule sys) (simp add: cast_defs example_defs)
  moreover have "authorizeAndPrice (store_depot\<lparr>UserGroup := Inl MongoError\<rparr>) user_ada id_public
      ten_o_clock = denied ''System error occurred''"
    by (rule sys) (simp add: cast_defs example_defs)
  moreover have "authorizeAndPrice store_depot user_ada id_orphan ten_o_clock
      = denied ''System error occurred''"
    by (rule sys) (simp add: cast_defs example_defs)
  ultimately show ?thesis using bad_ids orphan by simp
qed

end
